theory Spec2Isabelle
  imports Main "HOL-Library.AList"
begin

section \<open>Python values\<close>

text \<open>
  The script \<^verbatim>\<open>examples/python_colab_example.py\<close> is dynamically typed: what
  \<^verbatim>\<open>run_zmcp\<close> returns is either the object built by \<^verbatim>\<open>json.loads\<close> or the
  captured text itself, and the call sites subscript, slice, iterate and format that object.
  A Python \<^verbatim>\<open>str\<close> is a sequence of code points, so it is modelled as a list of
  naturals; \<open>str\<close> embeds an ASCII literal. The script never computes with a
  \<^verbatim>\<open>float\<close>, which is kept as the JSON number text it was decoded from. A
  \<^verbatim>\<open>dict\<close> is an association list with distinct keys in insertion order, read with
  \<open>map_of\<close>.
\<close>

type_synonym pystr = "nat list"

definition str :: "string \<Rightarrow> pystr" where
  "str s = map of_char s"

datatype pyval =
    PNone
  | PBool bool
  | PInt int
  | PFloat pystr
  | PStr pystr
  | PList "pyval list"
  | PDict "(pystr \<times> pyval) list"

text \<open>
  Exceptions are values. \<open>Exception m\<close> is the plain \<^verbatim>\<open>Exception(m)\<close> that
  \<^verbatim>\<open>run_zmcp\<close> raises; the others are raised by the interpreter and the library.
  All of them are subclasses of \<^verbatim>\<open>Exception\<close>, so \<^verbatim>\<open>except Exception\<close>
  catches every constructor.
\<close>

datatype exn =
    Exception pystr
  | JSONDecodeError
  | KeyError pyval
  | TypeError
  | AttributeError
  | IndexError
  | OSError

text \<open>Sequencing of a computation that may raise.\<close>

definition and_then :: "exn + 'a \<Rightarrow> ('a \<Rightarrow> exn + 'b) \<Rightarrow> exn + 'b" where
  "and_then m f = (case m of Inl e \<Rightarrow> Inl e | Inr x \<Rightarrow> f x)"

subsection \<open>Operations the call sites use\<close>

text \<open>\<^verbatim>\<open>v[k]\<close> with a \<^verbatim>\<open>str\<close> key: only a dict accepts it.\<close>

definition getitem :: "pyval \<Rightarrow> pystr \<Rightarrow> exn + pyval" where
  "getitem v k =
     (case v of
        PDict d \<Rightarrow> (case map_of d k of None \<Rightarrow> Inl (KeyError (PStr k)) | Some x \<Rightarrow> Inr x)
      | _ \<Rightarrow> Inl TypeError)"

text \<open>
  \<^verbatim>\<open>v[i]\<close> with a non-negative integer. The keys of a decoded dict are strings, so
  an integer key is never present.
\<close>

definition getitem_index :: "pyval \<Rightarrow> nat \<Rightarrow> exn + pyval" where
  "getitem_index v i =
     (case v of
        PList xs \<Rightarrow> if i < length xs then Inr (xs ! i) else Inl IndexError
      | PStr s \<Rightarrow> if i < length s then Inr (PStr [s ! i]) else Inl IndexError
      | PDict d \<Rightarrow> Inl (KeyError (PInt (int i)))
      | _ \<Rightarrow> Inl TypeError)"

text \<open>
  \<^verbatim>\<open>v[:n]\<close>. Sequences are cut; everything else raises (a dict raises
  \<^verbatim>\<open>TypeError\<close> for the unhashable slice up to Python 3.11 and \<^verbatim>\<open>KeyError\<close>
  from 3.12 on; the model keeps the former).
\<close>

definition slice_to :: "pyval \<Rightarrow> nat \<Rightarrow> exn + pyval" where
  "slice_to v n =
     (case v of
        PList xs \<Rightarrow> Inr (PList (take n xs))
      | PStr s \<Rightarrow> Inr (PStr (take n s))
      | _ \<Rightarrow> Inl TypeError)"

text \<open>\<^verbatim>\<open>v.get(k, default)\<close>: a method of dict only.\<close>

definition py_get :: "pyval \<Rightarrow> pystr \<Rightarrow> pyval \<Rightarrow> exn + pyval" where
  "py_get v k dflt =
     (case v of
        PDict d \<Rightarrow> Inr (case map_of d k of None \<Rightarrow> dflt | Some x \<Rightarrow> x)
      | _ \<Rightarrow> Inl AttributeError)"

definition startswith :: "pystr \<Rightarrow> pystr \<Rightarrow> bool" where
  "startswith s p \<longleftrightarrow> take (length p) s = p"

fun substring :: "pystr \<Rightarrow> pystr \<Rightarrow> bool" where
  "substring p [] = (p = [])"
| "substring p (c # cs) = (startswith (c # cs) p \<or> substring p cs)"

text \<open>
  \<^verbatim>\<open>p in v\<close> for a \<^verbatim>\<open>str\<close> \<open>p\<close>: substring test on a string, membership in a
  list, key membership in a dict, \<^verbatim>\<open>TypeError\<close> on anything else.
\<close>

definition py_in :: "pystr \<Rightarrow> pyval \<Rightarrow> exn + bool" where
  "py_in p v =
     (case v of
        PStr s \<Rightarrow> Inr (substring p s)
      | PList xs \<Rightarrow> Inr (PStr p \<in> set xs)
      | PDict d \<Rightarrow> Inr (map_of d p \<noteq> None)
      | _ \<Rightarrow> Inl TypeError)"


text \<open>\<^verbatim>\<open>for x in v\<close>: the elements in order.\<close>

definition py_iter :: "pyval \<Rightarrow> exn + pyval list" where
  "py_iter v =
     (case v of
        PList xs \<Rightarrow> Inr xs
      | PStr s \<Rightarrow> Inr (map (\<lambda>c. PStr [c]) s)
      | PDict d \<Rightarrow> Inr (map (\<lambda>kv. PStr (fst kv)) d)
      | _ \<Rightarrow> Inl TypeError)"

text \<open>
  A list comprehension \<^verbatim>\<open>[x for x in xs if p(x)]\<close> whose condition may raise: the
  first exception in iteration order ends it.
\<close>

fun filter_exn :: "('a \<Rightarrow> exn + bool) \<Rightarrow> 'a list \<Rightarrow> exn + 'a list" where
  "filter_exn p [] = Inr []"
| "filter_exn p (x # xs) =
     and_then (p x) (\<lambda>b. and_then (filter_exn p xs) (\<lambda>ys. Inr (if b then x # ys else ys)))"

section \<open>The environment\<close>

text \<open>
  What \<^verbatim>\<open>subprocess.run(cmd, capture_output=True, text=True)\<close> returns: the exit
  status and the two captured streams as text.
\<close>

record completed_process =
  returncode :: int
  stdout :: pystr
  stderr :: pystr

text \<open>
  The script's collaborators are not part of it and are parameters of the model:
  \<^item> \<open>subprocess_run\<close>: the operating system and the external tool. A call takes the
    argument list and the state of the world and gives the completed process, or the
    exception raised when no process could be started, and the world afterwards;
  \<^item> \<open>json_loads\<close>: the library's decoder \<^verbatim>\<open>json.loads\<close>;
  \<^item> \<open>float_bool\<close>: the truth value of a float;
  \<^item> \<open>builtin_str\<close>: the text \<^verbatim>\<open>str(v)\<close> of a value that is not a string.
\<close>

record 'w env =
  subprocess_run :: "pystr list \<Rightarrow> 'w \<Rightarrow> (exn + completed_process) \<times> 'w"
  json_loads :: "pystr \<Rightarrow> exn + pyval"
  float_bool :: "pystr \<Rightarrow> bool"
  builtin_str :: "pyval \<Rightarrow> pystr"

section \<open>The CLI invoker\<close>

definition CLI_PATH :: pystr where
  "CLI_PATH = str ''zmcp''"

text \<open>
  The keyword-only parameter \<^verbatim>\<open>json_output=True\<close>: \<open>None\<close> is a call that does
  not pass it.
\<close>

definition json_output_of :: "bool option \<Rightarrow> bool" where
  "json_output_of kw = (case kw of None \<Rightarrow> True | Some b \<Rightarrow> b)"

text \<open>Lines 17 to 19: the argument list.\<close>

definition zmcp_cmd :: "pystr \<Rightarrow> pystr list \<Rightarrow> bool \<Rightarrow> pystr list" where
  "zmcp_cmd command args json_output =
     (let cmd = [CLI_PATH, command] @ args
      in if json_output then cmd @ [str ''--json''] else cmd)"

text \<open>Lines 23 to 28: what is made of the completed process.\<close>

definition zmcp_result :: "'w env \<Rightarrow> bool \<Rightarrow> completed_process \<Rightarrow> exn + pyval" where
  "zmcp_result E json_output result =
     (if returncode result \<noteq> 0
      then Inl (Exception (str ''Command failed: '' @ stderr result))
      else if json_output then json_loads E (stdout result)
      else Inr (PStr (stdout result)))"

definition run_zmcp ::
  "'w env \<Rightarrow> pystr \<Rightarrow> pystr list \<Rightarrow> bool option \<Rightarrow> 'w \<Rightarrow> (exn + pyval) \<times> 'w" where
  "run_zmcp E command args kw w =
     (let json_output = json_output_of kw;
          cmd = zmcp_cmd command args json_output
      in case subprocess_run E cmd w of
           (Inl e, w') \<Rightarrow> (Inl e, w')
         | (Inr result, w') \<Rightarrow> (zmcp_result E json_output result, w'))"

section \<open>The script around the invoker\<close>

text \<open>
  The script runs at module level: it calls the invoker, reads fields of what comes back
  and prints. Its state is the world of the environment and the lines printed so far. A
  printed line is kept as the parts of its f-string: literal text, a formatted value, a
  formatted exception.
\<close>

datatype piece = Lit pystr | Fmt pyval | FmtExn exn

type_synonym line = "piece list"

record 'w state =
  world :: 'w
  printed :: "line list"

text \<open>
  An f-string evaluates its expressions from left to right; the first one that raises
  ends it.
\<close>

fun fstring :: "(exn + piece) list \<Rightarrow> exn + line" where
  "fstring [] = Inr []"
| "fstring (p # ps) = and_then p (\<lambda>x. and_then (fstring ps) (\<lambda>l. Inr (x # l)))"

definition lit :: "pystr \<Rightarrow> exn + piece" where
  "lit s = Inr (Lit s)"

definition fmt :: "exn + pyval \<Rightarrow> exn + piece" where
  "fmt v = and_then v (\<lambda>x. Inr (Fmt x))"

text \<open>Statements: each takes the state and gives a value or an exception, and the state.\<close>

definition pure :: "exn + 'a \<Rightarrow> 's \<Rightarrow> (exn + 'a) \<times> 's" where
  "pure v s = (v, s)"

definition then_do ::
  "('s \<Rightarrow> (exn + 'a) \<times> 's) \<Rightarrow> ('a \<Rightarrow> 's \<Rightarrow> (exn + 'b) \<times> 's) \<Rightarrow> 's \<Rightarrow> (exn + 'b) \<times> 's" where
  "then_do m f s = (case m s of (Inl e, s') \<Rightarrow> (Inl e, s') | (Inr x, s') \<Rightarrow> f x s')"

text \<open>\<^verbatim>\<open>print(l)\<close>: the argument is evaluated first, and nothing is printed if it raises.\<close>

definition py_print :: "exn + line \<Rightarrow> 'w state \<Rightarrow> (exn + unit) \<times> 'w state" where
  "py_print l s =
     (case l of
        Inl e \<Rightarrow> (Inl e, s)
      | Inr x \<Rightarrow> (Inr (), s\<lparr>printed := printed s @ [x]\<rparr>))"

definition call_zmcp ::
  "'w env \<Rightarrow> pystr \<Rightarrow> pystr list \<Rightarrow> bool option \<Rightarrow> 'w state \<Rightarrow> (exn + pyval) \<times> 'w state" where
  "call_zmcp E command args kw s =
     (case run_zmcp E command args kw (world s) of (r, w') \<Rightarrow> (r, s\<lparr>world := w'\<rparr>))"

text \<open>
  A value passed as a positional argument reaches \<^verbatim>\<open>subprocess.run\<close> inside the
  argument list, which takes strings: anything else raises \<^verbatim>\<open>TypeError\<close> there,
  before a process is started.
\<close>

definition as_arg :: "pyval \<Rightarrow> exn + pystr" where
  "as_arg v = (case v of PStr s \<Rightarrow> Inr s | _ \<Rightarrow> Inl TypeError)"

text \<open>The truth value of an object, as \<^verbatim>\<open>if v:\<close> takes it.\<close>

definition truthy :: "'w env \<Rightarrow> pyval \<Rightarrow> bool" where
  "truthy E v =
     (case v of
        PNone \<Rightarrow> False
      | PBool b \<Rightarrow> b
      | PInt i \<Rightarrow> i \<noteq> 0
      | PFloat f \<Rightarrow> float_bool E f
      | PStr s \<Rightarrow> s \<noteq> []
      | PList xs \<Rightarrow> xs \<noteq> []
      | PDict d \<Rightarrow> d \<noteq> [])"

text \<open>The text an f-string puts for a value that flows on as a string.\<close>

definition py_format :: "'w env \<Rightarrow> pyval \<Rightarrow> pystr" where
  "py_format E v = (case v of PStr s \<Rightarrow> s | _ \<Rightarrow> builtin_str E v)"

definition rule60 :: line where
  "rule60 = [Lit (replicate 60 61)]"

subsection \<open>Example 1: fetch a structure\<close>


fun print_all :: "(exn + line) list \<Rightarrow> 'w state \<Rightarrow> (exn + unit) \<times> 'w state" where
  "print_all [] s = (Inr (), s)"
| "print_all (l # ls) s = then_do (py_print l) (\<lambda>_. print_all ls) s"


subsection \<open>Example 3: search\<close>




subsection \<open>Example 4: details of a citation\<close>

text \<open>Line 88: the children whose item type is \<^verbatim>\<open>attachment\<close>.\<close>

definition attachments_of :: "pyval \<Rightarrow> exn + pyval list" where
  "attachments_of details =
     and_then (getitem details (str ''children'')) (\<lambda>children.
     and_then (py_iter children)
       (filter_exn (\<lambda>c. and_then (getitem c (str ''itemType''))
                           (\<lambda>t. Inr (t = PStr (str ''attachment''))))))"

text \<open>Line 92: the attachments whose content type has \<^verbatim>\<open>pdb\<close> in it.\<close>

definition pdb_attachments_of :: "pyval list \<Rightarrow> exn + pyval list" where
  "pdb_attachments_of attachments =
     filter_exn (\<lambda>a. and_then (py_get a (str ''contentType'') (PStr [])) (py_in (str ''pdb'')))
       attachments"

text \<open>Lines 83 to 85: the three prints about the item.\<close>

definition details_lines :: "pyval \<Rightarrow> (exn + line) list" where
  "details_lines details =
     [fstring [lit (str ''Citation: ''),
               fmt (and_then (getitem details (str ''item'')) (\<lambda>i. getitem i (str ''title'')))],
      fstring [lit (str ''Type: ''),
               fmt (and_then (getitem details (str ''item''))
                      (\<lambda>i. getitem i (str ''itemType'')))],
      fstring [lit (str ''DOI: ''),
               fmt (and_then (getitem details (str ''item''))
                      (\<lambda>i. py_get i (str ''DOI'') (PStr (str ''N/A''))))]]"

text \<open>Lines 93 to 98: the download of the first PDB attachment, if there is one.\<close>

definition download_first ::
  "'w env \<Rightarrow> pyval list \<Rightarrow> 'w state \<Rightarrow> (exn + unit) \<times> 'w state" where
  "download_first E pdb_attachments =
     (case pdb_attachments of
        [] \<Rightarrow> pure (Inr ())
      | a # _ \<Rightarrow>
          then_do (pure (getitem a (str ''key''))) (\<lambda>att_key.
          then_do (pure (getitem a (str ''filename''))) (\<lambda>filename.
          (let output_path = py_format E filename in
           then_do (pure (as_arg att_key)) (\<lambda>k.
           then_do (call_zmcp E (str ''download'') [k, output_path] None) (\<lambda>download_result.
           py_print (fstring
             [lit (32 # 32 # 10003 # str '' Downloaded ''), fmt (Inr (PStr output_path)),
              lit (str '' (''), fmt (getitem download_result (str ''size'')),
              lit (str '' bytes)'')])))))))"

definition example4 :: "'w env \<Rightarrow> pyval \<Rightarrow> 'w state \<Rightarrow> (exn + unit) \<times> 'w state" where
  "example4 E items =
     then_do (py_print (Inr [Lit (10 # str ''Example 4: Get citation details'')])) (\<lambda>_.
     then_do (py_print (Inr rule60)) (\<lambda>_.
     if truthy E items then
       then_do (pure (and_then (getitem_index items 0) (\<lambda>i. getitem i (str ''key'')))) (\<lambda>item_key.
       then_do (pure (as_arg item_key)) (\<lambda>k.
       then_do (call_zmcp E (str ''get'') [k] None) (\<lambda>details.
       then_do (print_all (details_lines details)) (\<lambda>_.
       then_do (pure (attachments_of details)) (\<lambda>attachments.
       then_do (py_print (Inr [Lit (str ''Attachments: ''),
                               Fmt (PInt (int (length attachments)))])) (\<lambda>_.
       then_do (pure (pdb_attachments_of attachments)) (\<lambda>pdb_attachments.
       download_first E pdb_attachments)))))))
     else pure (Inr ())))"

subsection \<open>Example 5: the batch\<close>

definition pdb_ids :: "pystr list" where
  "pdb_ids = [str ''4HHB'', str ''1MBN'', str ''2HHB'', str ''1UBQ'']"

text \<open>Lines 109 to 118, the body of the \<^verbatim>\<open>try\<close>: its value is the entry to append.\<close>

definition batch_try :: "'w env \<Rightarrow> pystr \<Rightarrow> 'w state \<Rightarrow> (exn + pyval) \<times> 'w state" where
  "batch_try E pdb_id =
     (let output_file = pdb_id @ str ''.pdb'' in
      then_do (call_zmcp E (str ''fetch-pdb'') [pdb_id, str ''--output'', output_file] None)
        (\<lambda>data.
      then_do (py_print (fstring
                 [lit (10003 # str '' ''), fmt (getitem data (str ''pdbId'')), lit (str '': ''),
                  fmt (and_then (getitem data (str ''title'')) (\<lambda>t. slice_to t 50)),
                  lit (str ''...'')])) (\<lambda>_.
      pure (Inr (PDict [(str ''id'', PStr pdb_id), (str ''file'', PStr output_file),
                        (str ''metadata'', data)])))))"

text \<open>
  Lines 107 to 121: one turn of the loop appends the entry, or prints the failure that
  \<^verbatim>\<open>except Exception\<close> caught; then the loop goes on.
\<close>

fun batch_loop ::
  "'w env \<Rightarrow> pystr list \<Rightarrow> pyval list \<Rightarrow> 'w state \<Rightarrow> pyval list \<times> 'w state" where
  "batch_loop E [] structures s = (structures, s)"
| "batch_loop E (pdb_id # rest) structures s =
     (case batch_try E pdb_id s of
        (Inr entry, s') \<Rightarrow> batch_loop E rest (structures @ [entry]) s'
      | (Inl e, s') \<Rightarrow>
          batch_loop E rest structures
            (s'\<lparr>printed := printed s'
                   @ [[Lit (10007 # str '' Failed to fetch ''), Fmt (PStr pdb_id),
                       Lit (str '': ''), FmtExn e]]\<rparr>))"

definition example5 :: "'w env \<Rightarrow> 'w state \<Rightarrow> (exn + pyval list) \<times> 'w state" where
  "example5 E =
     then_do (py_print (Inr [Lit (10 # str ''Example 5: Batch process PDB structures'')])) (\<lambda>_.
     then_do (py_print (Inr rule60)) (\<lambda>_.
     then_do (\<lambda>s. case batch_loop E pdb_ids [] s of (structures, s') \<Rightarrow> (Inr structures, s'))
       (\<lambda>structures.
     then_do (py_print (Inr [Lit (10 # 10003 # str '' Fetched ''),
                             Fmt (PInt (int (length structures))),
                             Lit (str '' structures'')])) (\<lambda>_.
     then_do (py_print (Inr [Lit (str ''Ready for analysis with BioPython, PyMOL, etc.'')]))
       (\<lambda>_. pure (Inr structures))))))"

subsection \<open>The subsets the filters are meant to give\<close>

text \<open>
  The words of the specification about Example 4: a child is an attachment when its item
  type is \<^verbatim>\<open>attachment\<close>, and its content type contains a text when it is a string
  with that text in it.
\<close>

definition item_type_of :: "pyval \<Rightarrow> pyval option" where
  "item_type_of c = (case c of PDict d \<Rightarrow> map_of d (str ''itemType'') | _ \<Rightarrow> None)"

definition is_attachment :: "pyval \<Rightarrow> bool" where
  "is_attachment c \<longleftrightarrow> item_type_of c = Some (PStr (str ''attachment''))"

definition content_type_of :: "pyval \<Rightarrow> pyval option" where
  "content_type_of c = (case c of PDict d \<Rightarrow> map_of d (str ''contentType'') | _ \<Rightarrow> None)"

definition text_or_absent :: "pyval option \<Rightarrow> bool" where
  "text_or_absent v = (case v of None \<Rightarrow> True | Some (PStr _) \<Rightarrow> True | _ \<Rightarrow> False)"

definition content_type_has :: "pystr \<Rightarrow> pyval \<Rightarrow> bool" where
  "content_type_has p c =
     (case content_type_of c of Some (PStr s) \<Rightarrow> substring p s | _ \<Rightarrow> False)"


subsection \<open>What a summary shows\<close>




subsection \<open>What a batch is made of\<close>










section \<open>A decoder for the environment\<close>

text \<open>
  \<^verbatim>\<open>json.loads\<close> is the library's, not the script's, and the theorems below hold for
  any decoder. To run the script on the output of a stand-in tool, \<open>json_decode\<close>
  follows the library's scanner on the JSON grammar: white space is blank, tab, line feed
  and carriage return; a string may not hold a raw control character; a number without
  fraction and exponent is an \<^verbatim>\<open>int\<close>; of two equal keys of an object the later
  value wins; anything after the document is an error. The library's limits on nesting
  depth and on the length of an integer are left out.
\<close>

definition is_ws :: "nat \<Rightarrow> bool" where
  "is_ws c \<longleftrightarrow> c = 32 \<or> c = 9 \<or> c = 10 \<or> c = 13"

definition skip_ws :: "pystr \<Rightarrow> pystr" where
  "skip_ws s = dropWhile is_ws s"

definition is_digit :: "nat \<Rightarrow> bool" where
  "is_digit c \<longleftrightarrow> 48 \<le> c \<and> c \<le> 57"

definition hex_val :: "nat \<Rightarrow> nat option" where
  "hex_val c =
     (if 48 \<le> c \<and> c \<le> 57 then Some (c - 48)
      else if 97 \<le> c \<and> c \<le> 102 then Some (c - 87)
      else if 65 \<le> c \<and> c \<le> 70 then Some (c - 55)
      else None)"

definition decode_uXXXX :: "pystr \<Rightarrow> nat option" where
  "decode_uXXXX s =
     (case map hex_val (take 4 s) of
        [Some a, Some b, Some c, Some d] \<Rightarrow> Some (((a * 16 + b) * 16 + c) * 16 + d)
      | _ \<Rightarrow> None)"

text \<open>The escapes after a backslash: quote, backslash, slash, b, f, n, r, t.\<close>

definition BACKSLASH :: "nat \<Rightarrow> nat option" where
  "BACKSLASH e =
     map_of [(34, 34), (92, 92), (47, 47), (98, 8), (102, 12), (110, 10), (114, 13), (116, 9)] e"

text \<open>
  The text after an opening quote, up to the closing one: the decoded string and the
  rest of the input. A high surrogate followed by an escaped low surrogate is one code
  point.
\<close>

fun scanstring :: "pystr \<Rightarrow> pystr \<Rightarrow> (pystr \<times> pystr) option" where
  "scanstring [] acc = None"
| "scanstring (c # cs) acc =
    (if c = 34 then Some (acc, cs)
     else if c < 32 then None
     else if c = 92 then
       (case cs of
          [] \<Rightarrow> None
        | e # cs' \<Rightarrow>
           if e = 117 then
             (case decode_uXXXX cs' of
                None \<Rightarrow> None
              | Some uni \<Rightarrow>
                  let rest = drop 4 cs' in
                  if 55296 \<le> uni \<and> uni \<le> 56319 \<and> take 2 rest = [92, 117] then
                    (case decode_uXXXX (drop 2 rest) of
                       None \<Rightarrow> None
                     | Some uni2 \<Rightarrow>
                         if 56320 \<le> uni2 \<and> uni2 \<le> 57343
                         then scanstring (drop 6 rest)
                                (acc @ [65536 + ((uni - 55296) * 1024 + (uni2 - 56320))])
                         else scanstring rest (acc @ [uni]))
                  else scanstring rest (acc @ [uni]))
           else (case BACKSLASH e of
                   None \<Rightarrow> None
                 | Some ch \<Rightarrow> scanstring cs' (acc @ [ch])))
     else scanstring cs (acc @ [c]))"

definition digits_then :: "pystr \<Rightarrow> (pystr \<times> pystr) option" where
  "digits_then s =
     (if takeWhile is_digit s = [] then None
      else Some (takeWhile is_digit s, dropWhile is_digit s))"

definition match_integer :: "pystr \<Rightarrow> (pystr \<times> pystr) option" where
  "match_integer s =
     (let sg = (case s of [] \<Rightarrow> [] | g # _ \<Rightarrow> if g = 45 then [g] else [])
      in case drop (length sg) s of
           [] \<Rightarrow> None
         | d # r \<Rightarrow>
             if d = 48 then Some (sg @ [d], r)
             else if is_digit d then Some (sg @ d # takeWhile is_digit r, dropWhile is_digit r)
             else None)"

definition match_frac :: "pystr \<Rightarrow> pystr \<times> pystr" where
  "match_frac s =
     (case s of
        [] \<Rightarrow> ([], s)
      | c # r \<Rightarrow>
          if c = 46 then
            (case digits_then r of None \<Rightarrow> ([], s) | Some (ds, rest) \<Rightarrow> (c # ds, rest))
          else ([], s))"

definition match_exp :: "pystr \<Rightarrow> pystr \<times> pystr" where
  "match_exp s =
     (case s of
        [] \<Rightarrow> ([], s)
      | c # r \<Rightarrow>
          if c = 101 \<or> c = 69 then
            (let sg = (case r of [] \<Rightarrow> [] | g # _ \<Rightarrow> if g = 43 \<or> g = 45 then [g] else [])
             in case digits_then (drop (length sg) r) of
                  None \<Rightarrow> ([], s)
                | Some (ds, rest) \<Rightarrow> (c # sg @ ds, rest))
          else ([], s))"

text \<open>The number at the head of the input: integer part, fraction, exponent, rest.\<close>

definition match_number :: "pystr \<Rightarrow> (pystr \<times> pystr \<times> pystr \<times> pystr) option" where
  "match_number s =
     (case match_integer s of
        None \<Rightarrow> None
      | Some (i, s1) \<Rightarrow>
          (case match_frac s1 of
             (f, s2) \<Rightarrow> (case match_exp s2 of (e, s3) \<Rightarrow> Some (i, f, e, s3))))"

definition int_of_digits :: "pystr \<Rightarrow> int" where
  "int_of_digits s =
     (case s of
        [] \<Rightarrow> 0
      | c # r \<Rightarrow>
          if c = 45 then - int (foldl (\<lambda>a d. a * 10 + (d - 48)) 0 r)
          else int (foldl (\<lambda>a d. a * 10 + (d - 48)) 0 s))"

text \<open>\<^verbatim>\<open>dict(pairs)\<close>: a later pair replaces the value of an equal key in place.\<close>

definition dict_of :: "(pystr \<times> pyval) list \<Rightarrow> (pystr \<times> pyval) list" where
  "dict_of pairs = foldl (\<lambda>d (k, v). AList.update k v d) [] pairs"

text \<open>
  The recursive descent, with the number of nested calls bounded by the first argument.
  \<open>parse_array\<close> starts at an element, \<open>parse_object\<close> after the opening quote of a
  key.
\<close>

fun scan_once :: "nat \<Rightarrow> pystr \<Rightarrow> (pyval \<times> pystr) option"
and parse_array :: "nat \<Rightarrow> pystr \<Rightarrow> pyval list \<Rightarrow> (pyval \<times> pystr) option"
and parse_object :: "nat \<Rightarrow> pystr \<Rightarrow> (pystr \<times> pyval) list \<Rightarrow> (pyval \<times> pystr) option"
where
  "scan_once 0 s = None"
| "scan_once (Suc n) s =
    (case s of
       [] \<Rightarrow> None
     | c # cs \<Rightarrow>
        if c = 34 then
          (case scanstring cs [] of None \<Rightarrow> None | Some (t, rest) \<Rightarrow> Some (PStr t, rest))
        else if c = 123 then
          (case skip_ws cs of
             [] \<Rightarrow> None
           | d # ds \<Rightarrow>
               if d = 125 then Some (PDict [], ds)
               else if d = 34 then parse_object n ds []
               else None)
        else if c = 91 then
          (case skip_ws cs of
             [] \<Rightarrow> None
           | d # ds \<Rightarrow>
               if d = 93 then Some (PList [], ds)
               else parse_array n (d # ds) [])
        else if startswith s (str ''null'') then Some (PNone, drop 4 s)
        else if startswith s (str ''true'') then Some (PBool True, drop 4 s)
        else if startswith s (str ''false'') then Some (PBool False, drop 5 s)
        else
          (case match_number s of
             Some (i, f, e, rest) \<Rightarrow>
               if f = [] \<and> e = [] then Some (PInt (int_of_digits i), rest)
               else Some (PFloat (i @ f @ e), rest)
           | None \<Rightarrow>
               if startswith s (str ''NaN'') then Some (PFloat (str ''NaN''), drop 3 s)
               else if startswith s (str ''Infinity'')
                 then Some (PFloat (str ''Infinity''), drop 8 s)
               else if startswith s (str ''-Infinity'')
                 then Some (PFloat (str ''-Infinity''), drop 9 s)
               else None))"
| "parse_array 0 s acc = None"
| "parse_array (Suc n) s acc =
    (case scan_once n s of
       None \<Rightarrow> None
     | Some (v, rest) \<Rightarrow>
        (case skip_ws rest of
           [] \<Rightarrow> None
         | c # cs \<Rightarrow>
             if c = 93 then Some (PList (acc @ [v]), cs)
             else if c = 44 then parse_array n (skip_ws cs) (acc @ [v])
             else None))"
| "parse_object 0 s pairs = None"
| "parse_object (Suc n) s pairs =
    (case scanstring s [] of
       None \<Rightarrow> None
     | Some (key, r1) \<Rightarrow>
        (case skip_ws r1 of
           [] \<Rightarrow> None
         | c # r2 \<Rightarrow>
            if c \<noteq> 58 then None
            else
              (case scan_once n (skip_ws r2) of
                 None \<Rightarrow> None
               | Some (v, r3) \<Rightarrow>
                  (case skip_ws r3 of
                     [] \<Rightarrow> None
                   | d # r4 \<Rightarrow>
                      if d = 125 then Some (PDict (dict_of (pairs @ [(key, v)])), r4)
                      else if d = 44 then
                        (case skip_ws r4 of
                           [] \<Rightarrow> None
                         | q # r5 \<Rightarrow>
                             if q = 34 then parse_object n r5 (pairs @ [(key, v)])
                             else None)
                      else None))))"

text \<open>
  Every nested call comes after at least one consumed character, so the length of the
  text bounds the nesting.
\<close>

definition json_decode :: "pystr \<Rightarrow> exn + pyval" where
  "json_decode s =
     (case scan_once (Suc (length s)) (skip_ws s) of
        None \<Rightarrow> Inl JSONDecodeError
      | Some (v, rest) \<Rightarrow> if skip_ws rest = [] then Inr v else Inl JSONDecodeError)"

subsection \<open>A stand-in for the external tool\<close>

text \<open>
  A tool given by a table from argument lists to completed processes; an argument list
  that is not in the table exits with status 2. The world is the list of the argument
  lists that were run, in order. Every float counts as true and \<open>str\<close> of a value that
  is not a string is a question mark: no run below meets either.
\<close>

definition table_env :: "(pystr list \<times> completed_process) list \<Rightarrow> (pystr list list) env" where
  "table_env table =
     \<lparr> subprocess_run = (\<lambda>cmd log.
         (Inr (case map_of table cmd of
                 None \<Rightarrow> \<lparr> returncode = 2, stdout = [], stderr = str ''unknown command'' \<rparr>
               | Some r \<Rightarrow> r),
          log @ [cmd])),
       json_loads = json_decode,
       float_bool = (\<lambda>_. True),
       builtin_str = (\<lambda>_. str ''?'') \<rparr>"

text \<open>
  The tool of the specification's example scenario: \<^verbatim>\<open>search hemoglobin\<close> prints one
  item, as JSON under \<^verbatim>\<open>--json\<close> and as a line of text without it;
  \<^verbatim>\<open>version\<close> prints text that is not JSON even under \<^verbatim>\<open>--json\<close>.
\<close>

definition hemoglobin_cmd :: "pystr list" where
  "hemoglobin_cmd = [str ''zmcp'', str ''search'', str ''hemoglobin'', str ''--json'']"

definition hemoglobin_reply :: completed_process where
  "hemoglobin_reply =
     \<lparr> returncode = 0,
       stdout = str ''[{\"title\":\"Hemoglobin structure\",\"key\":\"ABC123\"}]'',
       stderr = [] \<rparr>"

definition hemoglobin_text_reply :: completed_process where
  "hemoglobin_text_reply =
     \<lparr> returncode = 0,
       stdout = str ''Hemoglobin structure (ABC123)'' @ [10],
       stderr = [] \<rparr>"

definition version_reply :: completed_process where
  "version_reply = \<lparr> returncode = 0, stdout = str ''zmcp 1.0'' @ [10], stderr = [] \<rparr>"

definition unknown_reply :: completed_process where
  "unknown_reply = \<lparr> returncode = 2, stdout = [], stderr = str ''unknown command'' \<rparr>"

definition search_tool :: "(pystr list list) env" where
  "search_tool =
     table_env
       [(hemoglobin_cmd, hemoglobin_reply),
        ([str ''zmcp'', str ''search'', str ''hemoglobin''], hemoglobin_text_reply),
        ([str ''zmcp'', str ''version'', str ''--json''], version_reply)]"

text \<open>Results of \<^verbatim>\<open>get\<close>: an item and children of several kinds.\<close>

definition pdb_child :: pyval where
  "pdb_child = PDict [(str ''itemType'', PStr (str ''attachment'')),
                      (str ''contentType'', PStr (str ''chemical/x-pdb'')),
                      (str ''key'', PStr (str ''ATT1'')),
                      (str ''filename'', PStr (str ''4hhb.pdb''))]"

definition note_child :: pyval where
  "note_child = PDict [(str ''itemType'', PStr (str ''note'')), (str ''key'', PStr (str ''N1''))]"

definition pdf_child :: pyval where
  "pdf_child = PDict [(str ''itemType'', PStr (str ''attachment'')),
                      (str ''contentType'', PStr (str ''application/pdf'')),
                      (str ''key'', PStr (str ''ATT2''))]"

definition link_child :: pyval where
  "link_child = PDict [(str ''itemType'', PStr (str ''attachment'')),
                       (str ''key'', PStr (str ''ATT3''))]"

definition null_child :: pyval where
  "null_child = PDict [(str ''itemType'', PStr (str ''attachment'')),
                       (str ''contentType'', PNone),
                       (str ''key'', PStr (str ''ATT4''))]"

definition untyped_child :: pyval where
  "untyped_child = PDict [(str ''key'', PStr (str ''N2''))]"

definition details_with :: "pyval list \<Rightarrow> pyval" where
  "details_with children =
     PDict [(str ''item'', PDict [(str ''title'', PStr (str ''Hemoglobin structure'')),
                                  (str ''itemType'', PStr (str ''journalArticle''))]),
            (str ''children'', PList children)]"














section \<open>The invoker's contract\<close>

lemma search_tool_run:
  "subprocess_run search_tool hemoglobin_cmd [] = (Inr hemoglobin_reply, [hemoglobin_cmd])"
  by (simp add: search_tool_def table_env_def)

lemma hemoglobin_cmd_eq: "zmcp_cmd (str ''search'') [str ''hemoglobin''] True = hemoglobin_cmd"
  by (simp add: zmcp_cmd_def CLI_PATH_def hemoglobin_cmd_def)

lemma search_tool_loads: "json_loads search_tool = json_decode"
  by (simp add: search_tool_def table_env_def)

text \<open>
  C1. When the child process exits with status zero and JSON output was requested, what
  \<^verbatim>\<open>run_zmcp\<close> returns is the result of decoding the captured standard output as
  JSON. In particular, for the command \<^verbatim>\<open>search\<close> with the argument
  \<^verbatim>\<open>hemoglobin\<close>, against a tool that prints
  \<^verbatim>\<open>[{"title":"Hemoglobin structure","key":"ABC123"}]\<close> and exits with status zero,
  the result is a list of one element whose \<^verbatim>\<open>key\<close> is \<^verbatim>\<open>ABC123\<close>.
\<close>

theorem run_zmcp_json_success:
  "(subprocess_run E (zmcp_cmd command args True) w = (Inr r, w') \<and> returncode r = 0
       \<and> json_output_of kw
      \<longrightarrow> run_zmcp E command args kw w = (json_loads E (stdout r), w'))
   \<and> (json_loads E = json_decode
       \<and> subprocess_run E [str ''zmcp'', str ''search'', str ''hemoglobin'', str ''--json''] w
           = (Inr r, w')
       \<and> returncode r = 0
       \<and> stdout r = str ''[{\"title\":\"Hemoglobin structure\",\"key\":\"ABC123\"}]''
      \<longrightarrow> (\<exists>item. run_zmcp E (str ''search'') [str ''hemoglobin''] (Some True) w
                    = (Inr (PList [item]), w')
                 \<and> getitem item (str ''key'') = Inr (PStr (str ''ABC123''))))"
proof (intro conjI impI)
  assume "subprocess_run E (zmcp_cmd command args True) w = (Inr r, w') \<and> returncode r = 0
    \<and> json_output_of kw"
  then show "run_zmcp E command args kw w = (json_loads E (stdout r), w')"
    by (simp add: run_zmcp_def zmcp_result_def)
next
  assume a: "json_loads E = json_decode
       \<and> subprocess_run E [str ''zmcp'', str ''search'', str ''hemoglobin'', str ''--json''] w
           = (Inr r, w')
       \<and> returncode r = 0
       \<and> stdout r = str ''[{\"title\":\"Hemoglobin structure\",\"key\":\"ABC123\"}]''"
  have d: "json_decode (str ''[{\"title\":\"Hemoglobin structure\",\"key\":\"ABC123\"}]'')
       = Inr (PList [PDict [(str ''title'', PStr (str ''Hemoglobin structure'')),
                            (str ''key'', PStr (str ''ABC123''))]])"
    by code_simp
  have c: "zmcp_cmd (str ''search'') [str ''hemoglobin''] True
       = [str ''zmcp'', str ''search'', str ''hemoglobin'', str ''--json'']"
    by (simp add: zmcp_cmd_def CLI_PATH_def)
  have "run_zmcp E (str ''search'') [str ''hemoglobin''] (Some True) w
     = (Inr (PList [PDict [(str ''title'', PStr (str ''Hemoglobin structure'')),
                           (str ''key'', PStr (str ''ABC123''))]]), w')"
    using a by (simp add: run_zmcp_def zmcp_result_def json_output_of_def c d)
  moreover have "getitem (PDict [(str ''title'', PStr (str ''Hemoglobin structure'')),
                                 (str ''key'', PStr (str ''ABC123''))]) (str ''key'')
       = Inr (PStr (str ''ABC123''))"
    by (simp add: getitem_def str_def)
  ultimately show "\<exists>item. run_zmcp E (str ''search'') [str ''hemoglobin''] (Some True) w
                    = (Inr (PList [item]), w')
                 \<and> getitem item (str ''key'') = Inr (PStr (str ''ABC123''))"
    by blast
qed

theorem run_zmcp_json_success_witness:
  "subprocess_run search_tool (zmcp_cmd (str ''search'') [str ''hemoglobin''] True) []
      = (Inr hemoglobin_reply, [hemoglobin_cmd])
   \<and> returncode hemoglobin_reply = 0
   \<and> json_output_of None
   \<and> run_zmcp search_tool (str ''search'') [str ''hemoglobin''] None []
      = (json_loads search_tool (stdout hemoglobin_reply), [hemoglobin_cmd])
   \<and> json_loads search_tool = json_decode
   \<and> subprocess_run search_tool
        [str ''zmcp'', str ''search'', str ''hemoglobin'', str ''--json''] []
      = (Inr hemoglobin_reply, [hemoglobin_cmd])
   \<and> stdout hemoglobin_reply = str ''[{\"title\":\"Hemoglobin structure\",\"key\":\"ABC123\"}]''
   \<and> (\<exists>item. run_zmcp search_tool (str ''search'') [str ''hemoglobin''] (Some True) []
               = (Inr (PList [item]), [hemoglobin_cmd])
             \<and> getitem item (str ''key'') = Inr (PStr (str ''ABC123'')))"
proof -
  have h1: "subprocess_run search_tool (zmcp_cmd (str ''search'') [str ''hemoglobin''] True) []
      = (Inr hemoglobin_reply, [hemoglobin_cmd])"
    by (simp add: hemoglobin_cmd_eq search_tool_run)
  have h2: "returncode hemoglobin_reply = 0" by (simp add: hemoglobin_reply_def)
  have h3: "json_output_of None" by (simp add: json_output_of_def)
  have h4: "json_loads search_tool = json_decode" by (rule search_tool_loads)
  have h5: "subprocess_run search_tool
        [str ''zmcp'', str ''search'', str ''hemoglobin'', str ''--json''] []
      = (Inr hemoglobin_reply, [hemoglobin_cmd])"
    using search_tool_run by (simp add: hemoglobin_cmd_def)
  have h6: "stdout hemoglobin_reply
      = str ''[{\"title\":\"Hemoglobin structure\",\"key\":\"ABC123\"}]''"
    by (simp add: hemoglobin_reply_def)
  note t = run_zmcp_json_success [of search_tool "str ''search''" "[str ''hemoglobin'']" "[]"
      hemoglobin_reply "[hemoglobin_cmd]" None]
  from t h1 h2 h3 have c1: "run_zmcp search_tool (str ''search'') [str ''hemoglobin''] None []
      = (json_loads search_tool (stdout hemoglobin_reply), [hemoglobin_cmd])"
    by blast
  from t h4 h5 h2 h6
  have c2: "\<exists>item. run_zmcp search_tool (str ''search'') [str ''hemoglobin''] (Some True) []
               = (Inr (PList [item]), [hemoglobin_cmd])
             \<and> getitem item (str ''key'') = Inr (PStr (str ''ABC123''))"
    by blast
  from h1 h2 h3 c1 h4 h5 h6 c2 show ?thesis by blast
qed

text \<open>
  C2. When the child process exits with a status other than zero, \<^verbatim>\<open>run_zmcp\<close>
  raises and returns nothing, whatever the JSON flag, and the message of the exception
  holds the captured standard error verbatim (after the words
  \<^verbatim>\<open>Command failed: \<close>).
\<close>

theorem run_zmcp_nonzero_exit:
  assumes "subprocess_run E (zmcp_cmd command args (json_output_of kw)) w = (Inr r, w')"
    and "returncode r \<noteq> 0"
  shows "run_zmcp E command args kw w
           = (Inl (Exception (str ''Command failed: '' @ stderr r)), w')
    \<and> (\<exists>m pre post. fst (run_zmcp E command args kw w) = Inl (Exception m)
          \<and> m = pre @ stderr r @ post)"
proof -
  have "run_zmcp E command args kw w
          = (Inl (Exception (str ''Command failed: '' @ stderr r)), w')"
    using assms by (simp add: run_zmcp_def zmcp_result_def)
  then show ?thesis
    by (metis append_Nil2 fst_conv)
qed

theorem run_zmcp_nonzero_exit_witness:
  "subprocess_run search_tool (zmcp_cmd (str ''get'') [str ''NOPE''] (json_output_of None)) []
      = (Inr unknown_reply, [[str ''zmcp'', str ''get'', str ''NOPE'', str ''--json'']])
   \<and> returncode unknown_reply \<noteq> 0
   \<and> run_zmcp search_tool (str ''get'') [str ''NOPE''] None []
      = (Inl (Exception (str ''Command failed: unknown command'')),
         [[str ''zmcp'', str ''get'', str ''NOPE'', str ''--json'']])"
proof -
  have h1: "subprocess_run search_tool
        (zmcp_cmd (str ''get'') [str ''NOPE''] (json_output_of None)) []
      = (Inr unknown_reply, [[str ''zmcp'', str ''get'', str ''NOPE'', str ''--json'']])"
    by (simp add: search_tool_def table_env_def zmcp_cmd_def json_output_of_def CLI_PATH_def
        hemoglobin_cmd_def unknown_reply_def str_def)
  have h2: "returncode unknown_reply \<noteq> 0" by (simp add: unknown_reply_def)
  from run_zmcp_nonzero_exit [OF h1 h2]
  have "run_zmcp search_tool (str ''get'') [str ''NOPE''] None []
      = (Inl (Exception (str ''Command failed: '' @ stderr unknown_reply)),
         [[str ''zmcp'', str ''get'', str ''NOPE'', str ''--json'']])"
    by blast
  then have "run_zmcp search_tool (str ''get'') [str ''NOPE''] None []
      = (Inl (Exception (str ''Command failed: unknown command'')),
         [[str ''zmcp'', str ''get'', str ''NOPE'', str ''--json'']])"
    by (simp add: unknown_reply_def str_def)
  with h1 h2 show ?thesis by blast
qed

text \<open>
  C3. When the child process exits with status zero and JSON output was not requested,
  \<^verbatim>\<open>run_zmcp\<close> returns the captured standard output itself: nothing is trimmed,
  nothing is decoded.
\<close>

theorem run_zmcp_raw_text:
  assumes "subprocess_run E (zmcp_cmd command args False) w = (Inr r, w')"
    and "returncode r = 0"
  shows "run_zmcp E command args (Some False) w = (Inr (PStr (stdout r)), w')"
  using assms by (simp add: run_zmcp_def zmcp_result_def json_output_of_def)

theorem run_zmcp_raw_text_witness:
  "subprocess_run search_tool (zmcp_cmd (str ''search'') [str ''hemoglobin''] False) []
      = (Inr hemoglobin_text_reply, [[str ''zmcp'', str ''search'', str ''hemoglobin'']])
   \<and> returncode hemoglobin_text_reply = 0
   \<and> run_zmcp search_tool (str ''search'') [str ''hemoglobin''] (Some False) []
      = (Inr (PStr (str ''Hemoglobin structure (ABC123)'' @ [10])),
         [[str ''zmcp'', str ''search'', str ''hemoglobin'']])"
proof -
  have h1: "subprocess_run search_tool
        (zmcp_cmd (str ''search'') [str ''hemoglobin''] False) []
      = (Inr hemoglobin_text_reply, [[str ''zmcp'', str ''search'', str ''hemoglobin'']])"
    by (simp add: search_tool_def table_env_def zmcp_cmd_def CLI_PATH_def
        hemoglobin_cmd_def str_def)
  have h2: "returncode hemoglobin_text_reply = 0" by (simp add: hemoglobin_text_reply_def)
  from run_zmcp_raw_text [OF h1 h2]
  have "run_zmcp search_tool (str ''search'') [str ''hemoglobin''] (Some False) []
      = (Inr (PStr (str ''Hemoglobin structure (ABC123)'' @ [10])),
         [[str ''zmcp'', str ''search'', str ''hemoglobin'']])"
    by (simp add: hemoglobin_text_reply_def)
  with h1 h2 show ?thesis by blast
qed




text \<open>
  C10. A call of \<^verbatim>\<open>run_zmcp\<close> that does not pass \<^verbatim>\<open>json_output\<close> requests
  JSON: it behaves as the call with \<^verbatim>\<open>json_output=True\<close>, \<^verbatim>\<open>--json\<close> ends the
  argument list, and on success the standard output is decoded, not returned as text.
\<close>

theorem run_zmcp_default_json:
  "run_zmcp E command args None w = run_zmcp E command args (Some True) w
   \<and> zmcp_cmd command args (json_output_of None)
       = [CLI_PATH, command] @ args @ [str ''--json'']
   \<and> (subprocess_run E ([CLI_PATH, command] @ args @ [str ''--json'']) w = (Inr r, w')
        \<and> returncode r = 0
        \<longrightarrow> run_zmcp E command args None w = (json_loads E (stdout r), w'))"
  by (simp add: run_zmcp_def zmcp_result_def json_output_of_def zmcp_cmd_def)

theorem run_zmcp_default_json_witness:
  "run_zmcp search_tool (str ''search'') [str ''hemoglobin''] None []
     = run_zmcp search_tool (str ''search'') [str ''hemoglobin''] (Some True) []
   \<and> zmcp_cmd (str ''search'') [str ''hemoglobin''] (json_output_of None)
       = [CLI_PATH, str ''search''] @ [str ''hemoglobin''] @ [str ''--json'']
   \<and> subprocess_run search_tool
        ([CLI_PATH, str ''search''] @ [str ''hemoglobin''] @ [str ''--json'']) []
       = (Inr hemoglobin_reply, [hemoglobin_cmd])
   \<and> returncode hemoglobin_reply = 0
   \<and> run_zmcp search_tool (str ''search'') [str ''hemoglobin''] None []
       = (Inr (PList [PDict [(str ''title'', PStr (str ''Hemoglobin structure'')),
                             (str ''key'', PStr (str ''ABC123''))]]),
          [hemoglobin_cmd])"
proof -
  note t = run_zmcp_default_json [of search_tool "str ''search''" "[str ''hemoglobin'']" "[]"
      hemoglobin_reply "[hemoglobin_cmd]"]
  have h1: "subprocess_run search_tool
        ([CLI_PATH, str ''search''] @ [str ''hemoglobin''] @ [str ''--json'']) []
       = (Inr hemoglobin_reply, [hemoglobin_cmd])"
    using search_tool_run by (simp add: hemoglobin_cmd_def CLI_PATH_def)
  have h2: "returncode hemoglobin_reply = 0" by (simp add: hemoglobin_reply_def)
  have d: "json_decode (str ''[{\"title\":\"Hemoglobin structure\",\"key\":\"ABC123\"}]'')
       = Inr (PList [PDict [(str ''title'', PStr (str ''Hemoglobin structure'')),
                            (str ''key'', PStr (str ''ABC123''))]])"
    by code_simp
  from t h1 h2
  have "run_zmcp search_tool (str ''search'') [str ''hemoglobin''] None []
       = (json_loads search_tool (stdout hemoglobin_reply), [hemoglobin_cmd])"
    by blast
  then have c: "run_zmcp search_tool (str ''search'') [str ''hemoglobin''] None []
       = (Inr (PList [PDict [(str ''title'', PStr (str ''Hemoglobin structure'')),
                             (str ''key'', PStr (str ''ABC123''))]]),
          [hemoglobin_cmd])"
    by (simp add: search_tool_loads hemoglobin_reply_def d)
  from t h1 h2 c show ?thesis by blast
qed

section \<open>The call sites\<close>

lemmas child_defs = pdb_child_def note_child_def pdf_child_def link_child_def null_child_def
  untyped_child_def

lemma startswith_iff: "startswith s p \<longleftrightarrow> (\<exists>b. s = p @ b)"
  unfolding startswith_def
  by (metis append_eq_conv_conj append_take_drop_id)

lemma substring_iff: "substring p s \<longleftrightarrow> (\<exists>a b. s = a @ p @ b)"
proof (induction s)
  case Nil
  then show ?case by auto
next
  case (Cons c cs)
  show ?case
  proof
    assume "substring p (c # cs)"
    then consider "startswith (c # cs) p" | "substring p cs" by auto
    then show "\<exists>a b. c # cs = a @ p @ b"
    proof cases
      case 1
      then obtain b where "c # cs = p @ b" by (auto simp: startswith_iff)
      then have "c # cs = [] @ p @ b" by simp
      then show ?thesis by blast
    next
      case 2
      with Cons.IH obtain a b where "cs = a @ p @ b" by blast
      then have "c # cs = (c # a) @ p @ b" by simp
      then show ?thesis by blast
    qed
  next
    assume "\<exists>a b. c # cs = a @ p @ b"
    then obtain a b where ab: "c # cs = a @ p @ b" by blast
    show "substring p (c # cs)"
    proof (cases a)
      case Nil
      with ab have "startswith (c # cs) p" by (auto simp: startswith_iff)
      then show ?thesis by simp
    next
      case (Cons x a')
      with ab have "cs = a' @ p @ b" by simp
      with Cons.IH have "substring p cs" by blast
      then show ?thesis by simp
    qed
  qed
qed

lemma filter_exn_total:
  assumes "\<forall>x \<in> set xs. p x = Inr (q x)"
  shows "filter_exn p xs = Inr (filter q xs)"
  using assms by (induction xs) (auto simp: and_then_def)

lemma attachment_test:
  assumes "c = PDict d" and "map_of d (str ''itemType'') \<noteq> None"
  shows "and_then (getitem c (str ''itemType'')) (\<lambda>t. Inr (t = PStr (str ''attachment'')))
         = Inr (is_attachment c)"
  using assms by (auto simp: getitem_def and_then_def is_attachment_def item_type_of_def)

lemma pdb_test:
  assumes "c = PDict d" and "text_or_absent (content_type_of c)"
  shows "and_then (py_get c (str ''contentType'') (PStr [])) (py_in (str ''pdb''))
         = Inr (content_type_has (str ''pdb'') c)"
  using assms
  by (auto simp: py_get_def and_then_def content_type_has_def content_type_of_def
      text_or_absent_def py_in_def str_def startswith_def split: option.splits pyval.splits)

text \<open>
  C7, as the specification states it, fails for a result of \<^verbatim>\<open>get\<close> that mixes an
  attachment and a note: the attachment's content type is \<^verbatim>\<open>null\<close>, the first
  filter gives the attachment and the second raises \<^verbatim>\<open>TypeError\<close>. A child without
  an item type makes the first filter raise \<^verbatim>\<open>KeyError\<close>.
\<close>

theorem attachment_filters_counterexample:
  "json_decode (str ''{\"item\":{\"title\":\"Hemoglobin structure\",\"itemType\":\"journalArticle\"},\"children\":[{\"itemType\":\"attachment\",\"contentType\":null,\"key\":\"ATT4\"},{\"itemType\":\"note\",\"key\":\"N1\"}]}'')
     = Inr (details_with [null_child, note_child])
   \<and> attachments_of (details_with [null_child, note_child]) = Inr [null_child]
   \<and> pdb_attachments_of [null_child] = Inl TypeError
   \<and> attachments_of (details_with [pdb_child, untyped_child])
       = Inl (KeyError (PStr (str ''itemType'')))"
  by code_simp

text \<open>
  C7, amended. For a result of \<^verbatim>\<open>get\<close> whose children are a list of mappings that
  each carry an item type, and whose attachments have a content type that is absent or a
  string: filtering the children by item type equal to \<^verbatim>\<open>attachment\<close> gives exactly
  the attachments, in order, and filtering those by \<^verbatim>\<open>pdb\<close> in the content type
  gives exactly the attachments whose content type contains \<^verbatim>\<open>pdb\<close>.
\<close>

theorem attachment_filters:
  assumes "getitem details (str ''children'') = Inr (PList children)"
    and "\<forall>c \<in> set children. \<exists>d. c = PDict d \<and> map_of d (str ''itemType'') \<noteq> None"
    and "\<forall>c \<in> set children. is_attachment c \<longrightarrow> text_or_absent (content_type_of c)"
  shows "attachments_of details = Inr (filter is_attachment children)
     \<and> pdb_attachments_of (filter is_attachment children)
         = Inr (filter (content_type_has (str ''pdb'')) (filter is_attachment children))"
proof
  have "filter_exn (\<lambda>c. and_then (getitem c (str ''itemType''))
                           (\<lambda>t. Inr (t = PStr (str ''attachment'')))) children
        = Inr (filter is_attachment children)"
    using assms(2) by (intro filter_exn_total) (auto simp: attachment_test)
  then show "attachments_of details = Inr (filter is_attachment children)"
    using assms(1) by (simp add: attachments_of_def and_then_def py_iter_def)
next
  have "\<forall>a \<in> set (filter is_attachment children).
          and_then (py_get a (str ''contentType'') (PStr [])) (py_in (str ''pdb''))
          = Inr (content_type_has (str ''pdb'') a)"
    using assms(2,3) by (auto simp: pdb_test)
  then show "pdb_attachments_of (filter is_attachment children)
         = Inr (filter (content_type_has (str ''pdb'')) (filter is_attachment children))"
    unfolding pdb_attachments_of_def by (rule filter_exn_total)
qed

theorem attachment_filters_witness:
  "getitem (details_with [pdb_child, note_child, pdf_child, link_child]) (str ''children'')
     = Inr (PList [pdb_child, note_child, pdf_child, link_child])
   \<and> attachments_of (details_with [pdb_child, note_child, pdf_child, link_child])
     = Inr [pdb_child, pdf_child, link_child]
   \<and> pdb_attachments_of [pdb_child, pdf_child, link_child] = Inr [pdb_child]"
proof -
  let ?cs = "[pdb_child, note_child, pdf_child, link_child]"
  have h1: "getitem (details_with ?cs) (str ''children'') = Inr (PList ?cs)"
    by (simp add: details_with_def getitem_def str_def)
  have h2: "\<forall>c \<in> set ?cs. \<exists>d. c = PDict d \<and> map_of d (str ''itemType'') \<noteq> None"
    by (simp add: child_defs)
  have h3: "\<forall>c \<in> set ?cs. is_attachment c \<longrightarrow> text_or_absent (content_type_of c)"
    by (simp add: child_defs text_or_absent_def content_type_of_def str_def)
  have f1: "filter is_attachment ?cs = [pdb_child, pdf_child, link_child]"
    by (simp add: child_defs is_attachment_def item_type_of_def str_def)
  have f2: "filter (content_type_has (str ''pdb'')) [pdb_child, pdf_child, link_child] = [pdb_child]"
    by (simp add: child_defs content_type_has_def content_type_of_def str_def startswith_def)
  from attachment_filters [OF h1 h2 h3] f1 f2 h1 show ?thesis by simp
qed













section \<open>The batch\<close>

















end
